theory Spec2Isabelle
  imports Complex_Main
begin

section \<open>The record table\<close>

text \<open>
  \<open>text_to_pandas_dataframe\<close> reads the log into a frame of eight columns, one row per
  day. A row is a record of the eight cells. The date cell is a timestamp at midnight
  (the loader converts the column with \<open>pd.to_datetime\<close>); the Julian day number is an
  integer; the six charge cells are floats, taken here as finite and idealised as reals
  (no rounding, no NaN in the table). The frame's index is the default one, so a row's
  label is its position in the list.

  A pandas timestamp counts nanoseconds since 1970-01-01 in 64 bits. A timestamp at
  midnight is kept as its number of days since 1970-01-01, \<open>days\<close>, which lies between
  -106751 (1677-09-22) and 106751 (2262-04-11): no other midnight fits.
\<close>

typedef timestamp = "{d :: int. - 106751 \<le> d \<and> d \<le> 106751}"
  morphisms days Timestamp
  by (rule exI [of _ 0]) simp

record row =
  julian_day :: int
  date :: timestamp
  mah_sync :: real
  mah_ts1 :: real
  mah_ts2 :: real
  cum_sync :: real
  cum_ts1 :: real
  cum_ts2 :: real

type_synonym table = "row list"

text \<open>
  \<open>data[name]\<close> for a numeric column. A name that is no column of the frame is a
  \<open>KeyError\<close> in pandas, \<open>None\<close> here.
\<close>

definition numeric_column :: "string \<Rightarrow> (row \<Rightarrow> real) option" where
  "numeric_column name =
     (if name = ''Modified Julian day no.'' then Some (\<lambda>r. real_of_int (julian_day r))
      else if name = ''Milliamp-hours (Sync)'' then Some mah_sync
      else if name = ''Milliamp-hours (TS-1)'' then Some mah_ts1
      else if name = ''Milliamp-hours (TS-2)'' then Some mah_ts2
      else if name = ''Cumulative milliamp-hours (Sync)'' then Some cum_sync
      else if name = ''Cumulative milliamp-hours (TS-1)'' then Some cum_ts1
      else if name = ''Cumulative milliamp-hours (TS-2)'' then Some cum_ts2
      else None)"

datatype error =
  AssertionError string | KeyError string | IndexError | TypeError
  | OutOfBoundsDatetime | ValueError

text \<open>
  The column names the program builds from a target: \<open>f"Milliamp-hours ({target})"\<close> and
  \<open>f"Cumulative milliamp-hours ({target})"\<close>.
\<close>

definition milliamp_hours :: "string \<Rightarrow> string" where
  "milliamp_hours target = ''Milliamp-hours ('' @ target @ '')''"

definition cumulative_milliamp_hours :: "string \<Rightarrow> string" where
  "cumulative_milliamp_hours target = ''Cumulative milliamp-hours ('' @ target @ '')''"

section \<open>The integrity checker\<close>

text \<open>\<open>Series.is_monotonic_increasing\<close>: no value is smaller than the one before it.\<close>

fun is_monotonic_increasing :: "real list \<Rightarrow> bool" where
  "is_monotonic_increasing [] = True"
| "is_monotonic_increasing [x] = True"
| "is_monotonic_increasing (x # y # zs) = (x \<le> y \<and> is_monotonic_increasing (y # zs))"

text \<open>\<open>Series.cumsum()\<close>: the running sum, left to right.\<close>

fun cumsum_from :: "real \<Rightarrow> real list \<Rightarrow> real list" where
  "cumsum_from acc [] = []"
| "cumsum_from acc (x # xs) = (acc + x) # cumsum_from (acc + x) xs"

definition cumsum :: "real list \<Rightarrow> real list" where
  "cumsum xs = cumsum_from 0 xs"

text \<open>
  \<open>numpy.isclose(a, b, rtol, atol)\<close> is \<open>|a - b| <= atol + rtol * |b|\<close>. The checker
  passes \<open>atol=0.1\<close> and leaves \<open>rtol\<close> at numpy's default, \<open>1e-05\<close>.
\<close>

definition rtol_default :: real where
  "rtol_default = 1 / 100000"

definition isclose :: "real \<Rightarrow> real \<Rightarrow> real \<Rightarrow> real \<Rightarrow> bool" where
  "isclose a b rtol atol = (\<bar>a - b\<bar> \<le> atol + rtol * \<bar>b\<bar>)"

text \<open>\<open>isclose(xs, ys, atol=...).all()\<close> on two columns of one frame.\<close>

fun isclose_all :: "real list \<Rightarrow> real list \<Rightarrow> real \<Rightarrow> bool" where
  "isclose_all (a # as) (b # bs) atol = (isclose a b rtol_default atol \<and> isclose_all as bs atol)"
| "isclose_all _ _ atol = True"

text \<open>\<open>Series.duplicated().any()\<close>: some value occurs twice.\<close>

definition duplicated_any :: "real list \<Rightarrow> bool" where
  "duplicated_any xs = (\<not> distinct xs)"

definition sorted_checks :: "string list" where
  "sorted_checks = [''Modified Julian day no.'', ''Cumulative milliamp-hours (TS-2)'']"

text \<open>
  The first loop of \<open>data_integrity_check\<close>: one \<open>assert\<close> per column of
  \<open>sorted_checks\<close>, with the message \<open>f"{column} is not sorted"\<close>.
\<close>

fun check_sorted :: "string list \<Rightarrow> table \<Rightarrow> error + unit" where
  "check_sorted [] data = Inr ()"
| "check_sorted (column # columns) data =
     (case numeric_column column of
        None \<Rightarrow> Inl (KeyError column)
      | Some col \<Rightarrow>
          if is_monotonic_increasing (map col data) then check_sorted columns data
          else Inl (AssertionError (column @ '' is not sorted'')))"

text \<open>
  The second loop: for each target the running sum of \<open>Milliamp-hours (target)\<close> against
  \<open>Cumulative milliamp-hours (target)\<close>. The \<open>assert\<close> has no message.
\<close>

fun check_cumulative :: "string list \<Rightarrow> table \<Rightarrow> error + unit" where
  "check_cumulative [] data = Inr ()"
| "check_cumulative (target # targets) data =
     (case numeric_column (milliamp_hours target) of
        None \<Rightarrow> Inl (KeyError (milliamp_hours target))
      | Some inc \<Rightarrow>
          (case numeric_column (cumulative_milliamp_hours target) of
             None \<Rightarrow> Inl (KeyError (cumulative_milliamp_hours target))
           | Some cum \<Rightarrow>
               if isclose_all (cumsum (map inc data)) (map cum data) 0.1
               then check_cumulative targets data
               else Inl (AssertionError '''')))"

definition data_integrity_check :: "table \<Rightarrow> error + unit" where
  "data_integrity_check data =
     (case check_sorted sorted_checks data of
        Inl e \<Rightarrow> Inl e
      | Inr _ \<Rightarrow>
          (case check_cumulative [''Sync'', ''TS-1'', ''TS-2''] data of
             Inl e \<Rightarrow> Inl e
           | Inr _ \<Rightarrow>
               (case numeric_column ''Modified Julian day no.'' of
                  None \<Rightarrow> Inl (KeyError ''Modified Julian day no.'')
                | Some col \<Rightarrow>
                    if duplicated_any (map col data)
                    then Inl (AssertionError ''Duplicated dates found'')
                    else Inr ())))"

text \<open>The assertion of the second loop for one channel, named for the facts below.\<close>

definition consistent :: "(row \<Rightarrow> real) \<Rightarrow> (row \<Rightarrow> real) \<Rightarrow> table \<Rightarrow> bool" where
  "consistent inc cum data = isclose_all (cumsum (map inc data)) (map cum data) 0.1"

section \<open>Resampling\<close>

text \<open>
  A cell of a resampled frame is a float that may be NaN: the mean of an empty bin.
  Arithmetic on NaN gives NaN, a comparison with NaN is false.
\<close>

datatype fl = Fin real | NaN

fun fl_add :: "fl \<Rightarrow> fl \<Rightarrow> fl" where
  "fl_add (Fin a) (Fin b) = Fin (a + b)"
| "fl_add _ _ = NaN"

fun fl_mul :: "fl \<Rightarrow> fl \<Rightarrow> fl" where
  "fl_mul (Fin a) (Fin b) = Fin (a * b)"
| "fl_mul _ _ = NaN"

text \<open>Division; every divisor of the program is a non-zero constant.\<close>

fun fl_div :: "fl \<Rightarrow> fl \<Rightarrow> fl" where
  "fl_div (Fin a) (Fin b) = Fin (a / b)"
| "fl_div _ _ = NaN"

fun fl_gt :: "fl \<Rightarrow> real \<Rightarrow> bool" where
  "fl_gt (Fin a) k = (k < a)"
| "fl_gt NaN k = False"

text \<open>
  The calendar of the timestamps, on day numbers (days since 1970-01-01, a Thursday):
  the civil date of a day number and the day number of a civil date, in the proleptic
  Gregorian calendar.
\<close>

definition civil_from_days :: "int \<Rightarrow> int \<times> int \<times> int" where
  "civil_from_days z0 =
     (let z = z0 + 719468;
          era = z div 146097;
          doe = z - era * 146097;
          yoe = (doe - doe div 1460 + doe div 36524 - doe div 146096) div 365;
          y = yoe + era * 400;
          doy = doe - (365 * yoe + yoe div 4 - yoe div 100);
          mp = (5 * doy + 2) div 153;
          d = doy - (153 * mp + 2) div 5 + 1;
          m = (if mp < 10 then mp + 3 else mp - 9)
      in (if m \<le> 2 then y + 1 else y, m, d))"

definition days_from_civil :: "int \<Rightarrow> int \<Rightarrow> int \<Rightarrow> int" where
  "days_from_civil y0 m d =
     (let y = (if m \<le> 2 then y0 - 1 else y0);
          era = y div 400;
          yoe = y - era * 400;
          doy = (153 * (if m > 2 then m - 3 else m + 9) + 2) div 5 + d - 1;
          doe = yoe * 365 + yoe div 4 - yoe div 100 + doy
      in era * 146097 + doe - 719468)"

text \<open>
  The two rules the program resamples by: \<open>"W"\<close>, weeks ending on Sunday, and \<open>"M"\<close>,
  calendar months. Both bins are closed and labelled on the right: a week is Monday to
  Sunday and carries its Sunday, a month carries its last day. \<open>window\<close> numbers the bin a
  day falls in, \<open>window_label\<close> gives a bin's boundary date.
\<close>

datatype rule = Week_end | Month_end

fun window :: "rule \<Rightarrow> int \<Rightarrow> int" where
  "window Week_end d = (d + 3) div 7"
| "window Month_end d = (case civil_from_days d of (y, m, _) \<Rightarrow> 12 * y + (m - 1))"

fun window_label :: "rule \<Rightarrow> int \<Rightarrow> int" where
  "window_label Week_end k = 7 * k + 3"
| "window_label Month_end k = days_from_civil ((k + 1) div 12) ((k + 1) mod 12 + 1) 1 - 1"

text \<open>
  \<open>frame.resample(rule, on="Date")\<close>: one bin for every window from that of the earliest
  date of the frame to that of the latest, each with the rows whose date falls in it, in
  the frame's order. A window without rows is a bin all the same.
\<close>

definition resample :: "rule \<Rightarrow> table \<Rightarrow> (int \<times> table) list" where
  "resample rl frame =
     (case frame of
        [] \<Rightarrow> []
      | r # rs \<Rightarrow>
          (let earliest = foldl min (days (date r)) (map (\<lambda>x. days (date x)) rs);
               latest = foldl max (days (date r)) (map (\<lambda>x. days (date x)) rs)
           in map (\<lambda>k. (window_label rl k,
                         filter (\<lambda>x. window rl (days (date x)) = k) frame))
                [window rl earliest..window rl latest]))"

text \<open>
  A row of a resampled frame: the bin's label as index, and the seven numeric columns
  reduced over the bin (the date column has become the index).
\<close>

record bucket =
  label :: int
  b_julian_day :: fl
  b_mah_sync :: fl
  b_mah_ts1 :: fl
  b_mah_ts2 :: fl
  b_cum_sync :: fl
  b_cum_ts1 :: fl
  b_cum_ts2 :: fl

definition bucket_column :: "string \<Rightarrow> (bucket \<Rightarrow> fl) option" where
  "bucket_column name =
     (if name = ''Modified Julian day no.'' then Some b_julian_day
      else if name = ''Milliamp-hours (Sync)'' then Some b_mah_sync
      else if name = ''Milliamp-hours (TS-1)'' then Some b_mah_ts1
      else if name = ''Milliamp-hours (TS-2)'' then Some b_mah_ts2
      else if name = ''Cumulative milliamp-hours (Sync)'' then Some b_cum_sync
      else if name = ''Cumulative milliamp-hours (TS-1)'' then Some b_cum_ts1
      else if name = ''Cumulative milliamp-hours (TS-2)'' then Some b_cum_ts2
      else None)"

text \<open>The sum of an empty bin is 0, its mean is NaN.\<close>

definition bin_sum :: "real list \<Rightarrow> fl" where
  "bin_sum xs = Fin (sum_list xs)"

definition bin_mean :: "real list \<Rightarrow> fl" where
  "bin_mean xs = (if xs = [] then NaN else Fin (sum_list xs / real (length xs)))"

definition reduce :: "(real list \<Rightarrow> fl) \<Rightarrow> int \<times> table \<Rightarrow> bucket" where
  "reduce f bin =
     \<lparr>label = fst bin,
      b_julian_day = f (map (\<lambda>r. real_of_int (julian_day r)) (snd bin)),
      b_mah_sync = f (map mah_sync (snd bin)),
      b_mah_ts1 = f (map mah_ts1 (snd bin)),
      b_mah_ts2 = f (map mah_ts2 (snd bin)),
      b_cum_sync = f (map cum_sync (snd bin)),
      b_cum_ts1 = f (map cum_ts1 (snd bin)),
      b_cum_ts2 = f (map cum_ts2 (snd bin))\<rparr>"

text \<open>\<open>.sum(numeric_only=True)\<close> and \<open>.mean(numeric_only=True)\<close> of a resampled frame.\<close>

definition sum_numeric_only :: "(int \<times> table) list \<Rightarrow> bucket list" where
  "sum_numeric_only bins = map (reduce bin_sum) bins"

definition mean_numeric_only :: "(int \<times> table) list \<Rightarrow> bucket list" where
  "mean_numeric_only bins = map (reduce bin_mean) bins"

section \<open>The query surface\<close>

text \<open>
  What a query leaves behind: the lines it printed, and either the error it raised or the
  value it returned. Python's \<open>None\<close> is \<open>None\<close> of an option, or \<open>PyNone\<close> among the
  values of \<open>get_integrated_current\<close>.
\<close>

type_synonym 'a outcome = "string list \<times> (error + 'a)"

datatype frame = Rows "row list" | Buckets "bucket list"

datatype pyval = PyNone | Float fl | Array "fl list"

datatype pybool = Bool bool | BoolArray "bool list"

text \<open>
  The date argument of a query, by what it denotes: a string (or date object) for a
  calendar day, given by the day's number since 1970-01-01, which may be any integer, or
  a string that is no date. \<open>pd.to_datetime\<close> converts it to a timestamp, and raises
  \<open>OutOfBoundsDatetime\<close> on a day no timestamp can hold and a parse error, a
  \<open>ValueError\<close>, on a string that is no date.
\<close>

datatype date_arg = Day int | Unparsable

fun pd_to_datetime :: "date_arg \<Rightarrow> error + timestamp" where
  "pd_to_datetime (Day d) =
     (if - 106751 \<le> d \<and> d \<le> 106751 then Inr (Timestamp d) else Inl OutOfBoundsDatetime)"
| "pd_to_datetime Unparsable = Inl ValueError"

text \<open>\<open>data.index[data["Date"] == d].values[0]\<close>: the first position holding \<open>d\<close>.\<close>

primrec first_index :: "'a \<Rightarrow> 'a list \<Rightarrow> nat option" where
  "first_index d [] = None"
| "first_index d (x # xs) = (if x = d then Some 0 else map_option Suc (first_index d xs))"

text \<open>\<open>data.iloc[i:j]\<close> for positions \<open>i\<close>, \<open>j\<close> that are not negative.\<close>

definition iloc :: "'a list \<Rightarrow> nat \<Rightarrow> nat \<Rightarrow> 'a list" where
  "iloc xs i j = drop i (take j xs)"

definition invalid_frequency :: string where
  "invalid_frequency = ''Invalid frequency'' @ [CHR 0x0A] @ ''(Only: Daily, Weekly, or Monthly allowed)''"

definition get_sliced_data ::
  "table \<Rightarrow> date_arg \<Rightarrow> date_arg \<Rightarrow> string \<Rightarrow> bool \<Rightarrow> frame option outcome" where
  "get_sliced_data data start_date end_date frequency is_averaged =
     (case pd_to_datetime start_date of
        Inl err \<Rightarrow> ([], Inl err)
      | Inr start_date' \<Rightarrow>
     (case pd_to_datetime end_date of
        Inl err \<Rightarrow> ([], Inl err)
      | Inr end_date' \<Rightarrow>
      if start_date' \<notin> set (map date data) then ([''Invalid start_date''], Inr None)
      else if end_date' \<notin> set (map date data) then ([''Invalid end_date''], Inr None)
      else
        (case first_index start_date' (map date data) of
           None \<Rightarrow> ([], Inl IndexError)
         | Some start_index \<Rightarrow>
             (case first_index end_date' (map date data) of
                None \<Rightarrow> ([], Inl IndexError)
              | Some end_index \<Rightarrow>
                  if end_index < start_index
                  then ([''end_date can not be before start_date''], Inr None)
                  else if frequency = ''Daily''
                  then ([], Inr (Some (Rows (iloc data start_index (end_index + 1)))))
                  else if frequency = ''Weekly''
                  then
                    (if is_averaged
                     then ([], Inr (Some (Buckets (mean_numeric_only
                             (resample Week_end (iloc data start_index (end_index + 1)))))))
                     else ([], Inr (Some (Buckets (sum_numeric_only
                             (resample Week_end (iloc data start_index (end_index + 1))))))))
                  else if frequency = ''Monthly''
                  then
                    (if is_averaged
                     then ([], Inr (Some (Buckets (mean_numeric_only
                             (resample Month_end (iloc data start_index (end_index + 1)))))))
                     else ([], Inr (Some (Buckets (sum_numeric_only
                             (resample Month_end (iloc data start_index (end_index + 1))))))))
                  else ([invalid_frequency], Inr None)))))"

text \<open>\<open>used_data[name].values\<close>: a column of a sliced frame as an array of floats.\<close>

fun frame_column :: "frame \<Rightarrow> string \<Rightarrow> fl list option" where
  "frame_column (Rows rs) name = map_option (\<lambda>col. map (\<lambda>r. Fin (col r)) rs) (numeric_column name)"
| "frame_column (Buckets bs) name = map_option (\<lambda>col. map col bs) (bucket_column name)"

text \<open>\<open>ndarray.sum()\<close>.\<close>

definition np_sum :: "fl list \<Rightarrow> fl" where
  "np_sum xs = foldl fl_add (Fin 0) xs"

definition valid_targets_default :: "string list" where
  "valid_targets_default = [''Sync'', ''TS-1'', ''TS-2'']"

definition get_integrated_current ::
  "table \<Rightarrow> date_arg \<Rightarrow> date_arg option \<Rightarrow> string \<Rightarrow> string list \<Rightarrow> string \<Rightarrow> bool \<Rightarrow> bool \<Rightarrow>
   pyval outcome" where
  "get_integrated_current data start_date end_date target valid_targets frequency is_averaged is_summed =
     (if target \<notin> set valid_targets then ([''Invalid target''], Inr PyNone)
      else
        (case end_date of
           None \<Rightarrow>
             (case pd_to_datetime start_date of
                Inl err \<Rightarrow> ([], Inl err)
              | Inr start_date' \<Rightarrow>
                  if start_date' \<notin> set (map date data)
                  then ([''Invalid start_date''], Inr PyNone)
                  else
                    (case numeric_column (milliamp_hours target) of
                       None \<Rightarrow> ([], Inl (KeyError (milliamp_hours target)))
                     | Some col \<Rightarrow>
                         (case filter (\<lambda>r. date r = start_date') data of
                            [] \<Rightarrow> ([], Inl IndexError)
                          | r # _ \<Rightarrow> ([], Inr (Float (Fin (col r)))))))
         | Some end_date' \<Rightarrow>
             if target \<notin> set valid_targets then ([''Invalid target''], Inr PyNone)
             else
               (case get_sliced_data data start_date end_date' frequency is_averaged of
                  (out, Inl e) \<Rightarrow> (out, Inl e)
                | (out, Inr None) \<Rightarrow> (out, Inr PyNone)
                | (out, Inr (Some used_data)) \<Rightarrow>
                    (case frame_column used_data (milliamp_hours target) of
                       None \<Rightarrow> (out, Inl (KeyError (milliamp_hours target)))
                     | Some integrated_currents \<Rightarrow>
                         if is_summed then (out, Inr (Float (np_sum integrated_currents)))
                         else (out, Inr (Array integrated_currents))))))"

text \<open>
  Arithmetic and comparison on what \<open>get_integrated_current\<close> returned: on a float, on an
  array element by element, and a \<open>TypeError\<close> on \<open>None\<close>.
\<close>

fun py_mul :: "pyval \<Rightarrow> real \<Rightarrow> error + pyval" where
  "py_mul PyNone k = Inl TypeError"
| "py_mul (Float x) k = Inr (Float (fl_mul x (Fin k)))"
| "py_mul (Array xs) k = Inr (Array (map (\<lambda>x. fl_mul x (Fin k)) xs))"

fun py_rmul :: "real \<Rightarrow> pyval \<Rightarrow> error + pyval" where
  "py_rmul k PyNone = Inl TypeError"
| "py_rmul k (Float x) = Inr (Float (fl_mul (Fin k) x))"
| "py_rmul k (Array xs) = Inr (Array (map (\<lambda>x. fl_mul (Fin k) x) xs))"

fun py_div :: "pyval \<Rightarrow> real \<Rightarrow> error + pyval" where
  "py_div PyNone k = Inl TypeError"
| "py_div (Float x) k = Inr (Float (fl_div x (Fin k)))"
| "py_div (Array xs) k = Inr (Array (map (\<lambda>x. fl_div x (Fin k)) xs))"

fun py_gt :: "pyval \<Rightarrow> real \<Rightarrow> error + pybool" where
  "py_gt PyNone k = Inl TypeError"
| "py_gt (Float x) k = Inr (Bool (fl_gt x k))"
| "py_gt (Array xs) k = Inr (BoolArray (map (\<lambda>x. fl_gt x k) xs))"

definition is_beam_on :: "table \<Rightarrow> date_arg \<Rightarrow> string \<Rightarrow> pybool outcome" where
  "is_beam_on data d target =
     (case get_integrated_current data d None target valid_targets_default ''Daily'' False True of
        (out, Inl e) \<Rightarrow> (out, Inl e)
      | (out, Inr v) \<Rightarrow> (out, py_gt v 0))"

definition proton_charge :: real where
  "proton_charge = 16 / 10 ^ 20"

definition get_num_protons ::
  "table \<Rightarrow> date_arg \<Rightarrow> date_arg option \<Rightarrow> string \<Rightarrow> string list \<Rightarrow> string \<Rightarrow> bool \<Rightarrow> bool \<Rightarrow>
   bool \<Rightarrow> pyval outcome" where
  "get_num_protons data start_date end_date target valid_targets frequency is_averaged is_summed per_second =
     (case get_integrated_current data start_date end_date target valid_targets frequency
             is_averaged is_summed of
        (out, Inl e) \<Rightarrow> (out, Inl e)
      | (out, Inr integrated_current) \<Rightarrow>
          (case py_mul integrated_current (1 / 1000) of
             Inl e \<Rightarrow> (out, Inl e)
           | Inr scaled \<Rightarrow>
               (case py_div scaled proton_charge of
                  Inl e \<Rightarrow> (out, Inl e)
                | Inr num_protons \<Rightarrow>
                    if per_second then (out, py_div num_protons 86400)
                    else (out, Inr num_protons))))"

definition get_average_power ::
  "table \<Rightarrow> date_arg \<Rightarrow> date_arg option \<Rightarrow> string \<Rightarrow> string list \<Rightarrow> string \<Rightarrow> bool \<Rightarrow> bool \<Rightarrow>
   real \<Rightarrow> real \<Rightarrow> real \<Rightarrow> pyval outcome" where
  "get_average_power data start_date end_date target valid_targets frequency is_averaged is_summed
     voltage voltage_unit_factor current_unit_factor =
     (case get_integrated_current data start_date end_date target valid_targets frequency
             is_averaged is_summed of
        (out, Inl e) \<Rightarrow> (out, Inl e)
      | (out, Inr v) \<Rightarrow>
          (case py_rmul current_unit_factor v of
             Inl e \<Rightarrow> (out, Inl e)
           | Inr integrated_current \<Rightarrow>
               (out, py_rmul (voltage * voltage_unit_factor) integrated_current)))"

section \<open>Sample tables\<close>

text \<open>
  Small tables for evaluating the definitions. \<open>sample_row j d x c\<close> is the row of Julian
  day \<open>j\<close>, dated day \<open>d\<close>, whose three channels all read \<open>x\<close>, with cumulative value
  \<open>c\<close>.
\<close>

definition sample_row :: "int \<Rightarrow> int \<Rightarrow> real \<Rightarrow> real \<Rightarrow> row" where
  "sample_row j d x c =
     \<lparr>julian_day = j, date = Timestamp d, mah_sync = x, mah_ts1 = x, mah_ts2 = x,
      cum_sync = c, cum_ts1 = c, cum_ts2 = c\<rparr>"

text \<open>Three consecutive days.\<close>

definition three_days :: table where
  "three_days = [sample_row 1 10 1 1, sample_row 2 11 2 3, sample_row 3 12 0 3]"

text \<open>Two days a fortnight apart: Thursday 1970-01-01 and Thursday 1970-01-15.\<close>

definition fortnight :: table where
  "fortnight = [sample_row 1 0 1 1, sample_row 2 14 2 3]"

text \<open>One day whose cumulative reading is off by 1 on a running sum of 100000.\<close>

definition large_total :: table where
  "large_total = [sample_row 1 0 100000 100001]"

text \<open>Julian days ascending, dates descending.\<close>

definition dates_reversed :: table where
  "dates_reversed = [sample_row 1 10 1 1, sample_row 2 5 2 3]"

text \<open>Julian days descending.\<close>

definition julian_reversed :: table where
  "julian_reversed = [sample_row 2 0 1 1, sample_row 1 1 1 2]"

text \<open>A negative increment on all channels: every cumulative column decreases.\<close>

definition all_decrease :: table where
  "all_decrease = [sample_row 1 0 5 5, sample_row 2 1 (- 2) 3]"

text \<open>A negative increment on Sync only: the Sync cumulative column decreases.\<close>

definition sync_decreases :: table where
  "sync_decreases = [sample_row 1 0 5 5, (sample_row 2 1 0 5)\<lparr>mah_sync := - 2, cum_sync := 3\<rparr>]"

text \<open>A Sync cumulative reading that is not the running sum.\<close>

definition sync_mismatch :: table where
  "sync_mismatch = [(sample_row 1 0 1 1)\<lparr>cum_sync := 5\<rparr>]"

section \<open>Facts about timestamps\<close>

lemma days_Timestamp: "- 106751 \<le> d \<Longrightarrow> d \<le> 106751 \<Longrightarrow> days (Timestamp d) = d"
  by (simp add: Timestamp_inverse)

lemma Timestamp_eq:
  "- 106751 \<le> a \<Longrightarrow> a \<le> 106751 \<Longrightarrow> - 106751 \<le> b \<Longrightarrow> b \<le> 106751 \<Longrightarrow>
   (Timestamp a = Timestamp b) = (a = b)"
  by (simp add: Timestamp_inject)

text \<open>
  \<open>pd.to_datetime\<close> converts the day of every timestamp, to that timestamp; a date
  argument is the day of a timestamp, or its conversion raises.
\<close>

lemma pd_to_datetime_days: "pd_to_datetime (Day (days t)) = Inr t"
  using days [of t] by (simp add: days_inverse)

declare pd_to_datetime.simps [simp del]

lemma pd_to_datetime_Inr: "pd_to_datetime a = Inr t \<longleftrightarrow> a = Day (days t)"
proof (cases a)
  case (Day d)
  show ?thesis
  proof (cases "- 106751 \<le> d \<and> d \<le> 106751")
    case True
    then have "(Timestamp d = t) = (d = days t)"
      using Timestamp_inverse [of d] days_inverse [of t] by auto
    with True Day show ?thesis by (simp add: pd_to_datetime.simps)
  next
    case False
    with days [of t] Day show ?thesis by (auto simp: pd_to_datetime.simps)
  qed
next
  case Unparsable
  then show ?thesis by (simp add: pd_to_datetime.simps)
qed

lemma pd_to_datetime_sample:
  "pd_to_datetime (Day 99) = Inr (Timestamp 99)"
  "pd_to_datetime (Day (- 229482)) = Inl OutOfBoundsDatetime"
  by (simp_all add: pd_to_datetime.simps)

section \<open>Facts about the integrity checker\<close>

lemma is_monotonic_increasing_sorted: "is_monotonic_increasing xs = sorted xs"
  by (induction xs rule: is_monotonic_increasing.induct) (auto intro: order_trans)

lemma monotonic_julian_sorted:
  "sorted (map (\<lambda>r. real_of_int (julian_day r)) data) = sorted (map julian_day data)"
proof -
  have "sorted (map real_of_int xs) = sorted xs" for xs :: "int list"
    by (induction xs) auto
  from this [of "map julian_day data"] show ?thesis
    by (simp add: comp_def)
qed

lemma duplicated_julian_distinct:
  "duplicated_any (map (\<lambda>r. real_of_int (julian_day r)) data) = (\<not> distinct (map julian_day data))"
proof -
  have "distinct (map real_of_int xs) = distinct xs" for xs :: "int list"
    by (simp add: distinct_map inj_on_def)
  from this [of "map julian_day data"] show ?thesis
    by (simp add: duplicated_any_def comp_def)
qed

lemma cumsum_from_length [simp]: "length (cumsum_from acc xs) = length xs"
  by (induction xs arbitrary: acc) auto

lemma cumsum_from_nth:
  "i < length xs \<Longrightarrow> cumsum_from acc xs ! i = acc + sum_list (take (Suc i) xs)"
proof (induction xs arbitrary: acc i)
  case Nil
  then show ?case by simp
next
  case (Cons x xs)
  show ?case
  proof (cases i)
    case 0
    then show ?thesis by simp
  next
    case (Suc j)
    with Cons.prems have "j < length xs" by simp
    from Cons.IH [OF this, of "acc + x"] Suc show ?thesis by simp
  qed
qed

lemma cumsum_nth: "i < length xs \<Longrightarrow> cumsum xs ! i = sum_list (take (Suc i) xs)"
  by (simp add: cumsum_def cumsum_from_nth)

lemma isclose_all_nth:
  "length as = length bs \<Longrightarrow>
   isclose_all as bs atol = (\<forall>i < length as. isclose (as ! i) (bs ! i) rtol_default atol)"
proof (induction as bs atol rule: isclose_all.induct)
  case (1 a as b bs atol)
  then show ?case by (auto simp: nth_Cons split: nat.splits)
qed auto

lemma consistent_nth:
  "consistent inc cum data =
     (\<forall>i < length data.
        \<bar>sum_list (take (Suc i) (map inc data)) - cum (data ! i)\<bar> \<le> 0.1 + \<bar>cum (data ! i)\<bar> / 100000)"
proof -
  have len: "length (cumsum (map inc data)) = length (map cum data)"
    by (simp add: cumsum_def)
  show ?thesis
    unfolding consistent_def isclose_all_nth [OF len]
    by (simp add: cumsum_def cumsum_from_nth isclose_def rtol_default_def)
qed

lemma check_sorted_chain:
  "check_sorted sorted_checks data =
     (if \<not> sorted (map julian_day data)
        then Inl (AssertionError ''Modified Julian day no. is not sorted'')
      else if \<not> sorted (map cum_ts2 data)
        then Inl (AssertionError ''Cumulative milliamp-hours (TS-2) is not sorted'')
      else Inr ())"
  by (simp add: sorted_checks_def numeric_column_def monotonic_julian_sorted
      is_monotonic_increasing_sorted)

lemma check_cumulative_chain:
  "check_cumulative [''Sync'', ''TS-1'', ''TS-2''] data =
     (if \<not> consistent mah_sync cum_sync data then Inl (AssertionError '''')
      else if \<not> consistent mah_ts1 cum_ts1 data then Inl (AssertionError '''')
      else if \<not> consistent mah_ts2 cum_ts2 data then Inl (AssertionError '''')
      else Inr ())"
  by (simp add: numeric_column_def consistent_def milliamp_hours_def cumulative_milliamp_hours_def)

text \<open>The checker as the chain of its six assertions, in the order they run.\<close>

lemma data_integrity_check_chain:
  "data_integrity_check data =
     (if \<not> sorted (map julian_day data)
        then Inl (AssertionError ''Modified Julian day no. is not sorted'')
      else if \<not> sorted (map cum_ts2 data)
        then Inl (AssertionError ''Cumulative milliamp-hours (TS-2) is not sorted'')
      else if \<not> consistent mah_sync cum_sync data then Inl (AssertionError '''')
      else if \<not> consistent mah_ts1 cum_ts1 data then Inl (AssertionError '''')
      else if \<not> consistent mah_ts2 cum_ts2 data then Inl (AssertionError '''')
      else if \<not> distinct (map julian_day data)
        then Inl (AssertionError ''Duplicated dates found'')
      else Inr ())"
  unfolding data_integrity_check_def check_sorted_chain check_cumulative_chain
  by (simp add: numeric_column_def duplicated_julian_distinct)

lemma not_sorted_map_iff:
  fixes f :: "row \<Rightarrow> 'a::linorder"
  shows "(\<not> sorted (map f data)) = (\<exists>i. Suc i < length data \<and> f (data ! Suc i) < f (data ! i))"
  by (auto simp: sorted_iff_nth_Suc not_le)

lemma duplicated_message: "''Duplicated dates found'' \<noteq> field @ '' is not sorted''"
proof
  assume "''Duplicated dates found'' = field @ '' is not sorted''"
  then have "rev ''Duplicated dates found'' = rev (field @ '' is not sorted'')"
    by (rule arg_cong)
  then show False by simp
qed

text \<open>Evaluating the consistency assertion on a table of at most two rows.\<close>

lemma consistent_eval:
  "consistent inc cum [] = True"
  "consistent inc cum [a] = isclose (inc a) (cum a) rtol_default 0.1"
  "consistent inc cum [a, b] =
     (isclose (inc a) (cum a) rtol_default 0.1 \<and> isclose (inc a + inc b) (cum b) rtol_default 0.1)"
  by (simp_all add: consistent_def cumsum_def)

lemmas sample_eval =
  sample_row_def consistent_eval isclose_def rtol_default_def data_integrity_check_chain
  days_Timestamp Timestamp_eq

subsection \<open>Monotonicity violations\<close>

text \<open>
  C5. \<open>data_integrity_check\<close> raises a monotonicity violation, an \<open>AssertionError\<close> whose
  message is \<open>"<field> is not sorted"\<close>, exactly when the Julian day column or the column
  \<open>Cumulative milliamp-hours (TS-2)\<close> decreases somewhere in table order, and the message
  names the offending column: the Julian day column when it decreases, the TS-2 column
  when only that one does. The Sync and TS-1 cumulative columns are not checked for
  monotonicity, a decrease there raises no such violation; they are still checked for
  consistency: when no monotonicity violation is raised and the running sum of the Sync
  or TS-1 increments does not agree with the cumulative column, the check raises the
  (message-less) assertion of the consistency loop.
\<close>

theorem monotonicity_violation_iff:
  "(data_integrity_check data = Inl (AssertionError ''Modified Julian day no. is not sorted'')
      \<longleftrightarrow> (\<exists>i. Suc i < length data \<and> julian_day (data ! Suc i) < julian_day (data ! i)))
   \<and> (data_integrity_check data
        = Inl (AssertionError ''Cumulative milliamp-hours (TS-2) is not sorted'')
      \<longleftrightarrow> \<not> (\<exists>i. Suc i < length data \<and> julian_day (data ! Suc i) < julian_day (data ! i))
          \<and> (\<exists>i. Suc i < length data \<and> cum_ts2 (data ! Suc i) < cum_ts2 (data ! i)))
   \<and> ((\<exists>field. data_integrity_check data = Inl (AssertionError (field @ '' is not sorted'')))
      \<longleftrightarrow> (\<exists>i. Suc i < length data \<and> julian_day (data ! Suc i) < julian_day (data ! i))
          \<or> (\<exists>i. Suc i < length data \<and> cum_ts2 (data ! Suc i) < cum_ts2 (data ! i)))
   \<and> (\<not> (\<exists>i. Suc i < length data \<and> julian_day (data ! Suc i) < julian_day (data ! i))
      \<and> \<not> (\<exists>i. Suc i < length data \<and> cum_ts2 (data ! Suc i) < cum_ts2 (data ! i))
      \<and> (\<not> consistent mah_sync cum_sync data \<or> \<not> consistent mah_ts1 cum_ts1 data)
      \<longrightarrow> data_integrity_check data = Inl (AssertionError ''''))"
proof -
  let ?J = "\<exists>i. Suc i < length data \<and> julian_day (data ! Suc i) < julian_day (data ! i)"
  let ?T = "\<exists>i. Suc i < length data \<and> cum_ts2 (data ! Suc i) < cum_ts2 (data ! i)"
  have J: "(\<not> sorted (map julian_day data)) = ?J" by (rule not_sorted_map_iff)
  have T: "(\<not> sorted (map cum_ts2 data)) = ?T" by (rule not_sorted_map_iff)
  have c1: "data_integrity_check data
      = Inl (AssertionError ''Modified Julian day no. is not sorted'') \<longleftrightarrow> ?J"
    unfolding J [symmetric] by (simp add: data_integrity_check_chain)
  have c2: "data_integrity_check data
      = Inl (AssertionError ''Cumulative milliamp-hours (TS-2) is not sorted'') \<longleftrightarrow> \<not> ?J \<and> ?T"
    unfolding J [symmetric] T [symmetric] by (simp add: data_integrity_check_chain)
  have f1: "\<exists>field. ''Modified Julian day no. is not sorted'' = field @ '' is not sorted''"
    by (rule exI [of _ "''Modified Julian day no.''"]) simp
  have f2: "\<exists>field. ''Cumulative milliamp-hours (TS-2) is not sorted'' = field @ '' is not sorted''"
    by (rule exI [of _ "''Cumulative milliamp-hours (TS-2)''"]) simp
  have c3: "(\<exists>field. data_integrity_check data = Inl (AssertionError (field @ '' is not sorted'')))
      \<longleftrightarrow> ?J \<or> ?T"
  proof
    assume "\<exists>field. data_integrity_check data = Inl (AssertionError (field @ '' is not sorted''))"
    then obtain field where
      e: "data_integrity_check data = Inl (AssertionError (field @ '' is not sorted''))" ..
    show "?J \<or> ?T"
    proof (rule ccontr)
      assume "\<not> (?J \<or> ?T)"
      then have "sorted (map julian_day data)" "sorted (map cum_ts2 data)"
        using J T by auto
      with e show False
        using duplicated_message [of field]
        by (simp add: data_integrity_check_chain split: if_splits)
    qed
  next
    assume "?J \<or> ?T"
    then have "\<not> sorted (map julian_day data) \<or> \<not> sorted (map cum_ts2 data)"
      using J T by simp
    then show "\<exists>field. data_integrity_check data = Inl (AssertionError (field @ '' is not sorted''))"
      using f1 f2 by (auto simp: data_integrity_check_chain)
  qed
  have c4: "\<not> ?J \<and> \<not> ?T
      \<and> (\<not> consistent mah_sync cum_sync data \<or> \<not> consistent mah_ts1 cum_ts1 data)
      \<longrightarrow> data_integrity_check data = Inl (AssertionError '''')"
    unfolding J [symmetric] T [symmetric] by (auto simp: data_integrity_check_chain)
  from c1 c2 c3 c4 show ?thesis by blast
qed

text \<open>
  On the samples: descending Julian days are reported under the Julian day column, a
  negative increment on all channels under TS-2, and a Sync reading off its running sum
  fails the consistency assertion.
\<close>

theorem monotonicity_violation_witness:
  "data_integrity_check julian_reversed
     = Inl (AssertionError ''Modified Julian day no. is not sorted'')
   \<and> data_integrity_check all_decrease
     = Inl (AssertionError ''Cumulative milliamp-hours (TS-2) is not sorted'')
   \<and> \<not> consistent mah_sync cum_sync sync_mismatch
   \<and> data_integrity_check sync_mismatch = Inl (AssertionError '''')"
proof -
  have a: "\<exists>i. Suc i < length julian_reversed
      \<and> julian_day (julian_reversed ! Suc i) < julian_day (julian_reversed ! i)"
    by (rule exI [of _ 0]) (simp add: julian_reversed_def sample_row_def)
  have b: "\<not> (\<exists>i. Suc i < length all_decrease
      \<and> julian_day (all_decrease ! Suc i) < julian_day (all_decrease ! i))"
    by (simp add: all_decrease_def sample_row_def)
  have c: "\<exists>i. Suc i < length all_decrease
      \<and> cum_ts2 (all_decrease ! Suc i) < cum_ts2 (all_decrease ! i)"
    by (rule exI [of _ 0]) (simp add: all_decrease_def sample_row_def)
  have d: "\<not> (\<exists>i. Suc i < length sync_mismatch
      \<and> julian_day (sync_mismatch ! Suc i) < julian_day (sync_mismatch ! i))"
    "\<not> (\<exists>i. Suc i < length sync_mismatch
      \<and> cum_ts2 (sync_mismatch ! Suc i) < cum_ts2 (sync_mismatch ! i))"
    by (simp_all add: sync_mismatch_def)
  have e: "\<not> consistent mah_sync cum_sync sync_mismatch"
    by (simp add: sync_mismatch_def sample_eval)
  from a b c d e
    monotonicity_violation_iff [of julian_reversed]
    monotonicity_violation_iff [of all_decrease]
    monotonicity_violation_iff [of sync_mismatch]
  show ?thesis by blast
qed

text \<open>A table whose Sync cumulative column decreases passes the whole check.\<close>

lemma sync_decrease_passes:
  "data_integrity_check sync_decreases = Inr ()
   \<and> cum_sync (sync_decreases ! 1) < cum_sync (sync_decreases ! 0)"
  by (simp add: sync_decreases_def sample_eval)

subsection \<open>Julian days and dates of a table that passes\<close>

text \<open>
  C6, as the claim states it, fails: a table passes the check with its dates in
  descending order, since no assertion reads the date column.
\<close>

theorem dates_not_checked_counterexample:
  "data_integrity_check dates_reversed = Inr ()
   \<and> days (date (dates_reversed ! 1)) < days (date (dates_reversed ! 0))"
  by (simp add: dates_reversed_def sample_eval)

text \<open>
  C6, amended. For every table on which \<open>data_integrity_check\<close> returns without raising,
  the Julian day column is strictly increasing across the table and holds no duplicate.
\<close>

theorem passing_table_julian_strict:
  assumes "data_integrity_check data = Inr ()"
  shows "(\<forall>i j. i < j \<and> j < length data \<longrightarrow> julian_day (data ! i) < julian_day (data ! j))
         \<and> distinct (map julian_day data)"
proof -
  from assms have s: "sorted (map julian_day data)" and d: "distinct (map julian_day data)"
    by (simp_all add: data_integrity_check_chain split: if_splits)
  then have "sorted_wrt (<) (map julian_day data)"
    by (simp add: strict_sorted_iff)
  then have "\<forall>i j. i < j \<and> j < length data \<longrightarrow> julian_day (data ! i) < julian_day (data ! j)"
    by (auto simp: sorted_wrt_iff_nth_less)
  with d show ?thesis by simp
qed

theorem passing_table_julian_strict_witness:
  "data_integrity_check three_days = Inr ()
   \<and> julian_day (three_days ! 0) < julian_day (three_days ! 2)
   \<and> distinct (map julian_day three_days)"
proof -
  have p: "data_integrity_check three_days = Inr ()"
    by (simp add: three_days_def sample_eval consistent_def cumsum_def)
  have "(0::nat) < 2 \<and> 2 < length three_days"
    by (simp add: three_days_def)
  with p passing_table_julian_strict [OF p] show ?thesis by blast
qed

subsection \<open>Running sums of a table that passes\<close>

text \<open>
  C1, as the claim states it, fails: the check compares with \<open>numpy.isclose\<close>, whose
  tolerance is \<open>atol + rtol * |cumulative|\<close> with the default \<open>rtol\<close>, so a running sum of
  100000 against a cumulative reading of 100001 passes although they differ by 1.
\<close>

theorem absolute_tolerance_counterexample:
  "data_integrity_check large_total = Inr ()
   \<and> \<not> \<bar>sum_list (take (Suc 0) (map mah_sync large_total)) - cum_sync (large_total ! 0)\<bar> \<le> 0.1"
  by (simp add: large_total_def sample_eval)

text \<open>
  C1, amended. For every table on which \<open>data_integrity_check\<close> returns without raising,
  at every position and for each of the channels Sync, TS-1 and TS-2, the left-to-right
  running sum of the incremental column differs from the cumulative column by at most
  0.1 plus 1e-05 times the absolute value of the cumulative reading.
\<close>

theorem passing_table_cumulative_close:
  assumes "data_integrity_check data = Inr ()" and "i < length data"
  shows "\<bar>sum_list (take (Suc i) (map mah_sync data)) - cum_sync (data ! i)\<bar>
           \<le> 0.1 + \<bar>cum_sync (data ! i)\<bar> / 100000
       \<and> \<bar>sum_list (take (Suc i) (map mah_ts1 data)) - cum_ts1 (data ! i)\<bar>
           \<le> 0.1 + \<bar>cum_ts1 (data ! i)\<bar> / 100000
       \<and> \<bar>sum_list (take (Suc i) (map mah_ts2 data)) - cum_ts2 (data ! i)\<bar>
           \<le> 0.1 + \<bar>cum_ts2 (data ! i)\<bar> / 100000"
proof -
  from assms(1) have "consistent mah_sync cum_sync data" "consistent mah_ts1 cum_ts1 data"
    "consistent mah_ts2 cum_ts2 data"
    by (simp_all add: data_integrity_check_chain split: if_splits)
  with assms(2) show ?thesis by (simp add: consistent_nth)
qed

theorem passing_table_cumulative_close_witness:
  "data_integrity_check large_total = Inr () \<and> 0 < length large_total
   \<and> \<bar>sum_list (take (Suc 0) (map mah_sync large_total)) - cum_sync (large_total ! 0)\<bar>
       \<le> 0.1 + \<bar>cum_sync (large_total ! 0)\<bar> / 100000"
proof -
  have p: "data_integrity_check large_total = Inr ()"
    by (simp add: large_total_def sample_eval)
  have l: "0 < length large_total"
    by (simp add: large_total_def)
  from p l passing_table_cumulative_close [OF p l] show ?thesis by blast
qed


section \<open>Facts about slicing\<close>

text \<open>\<open>first_index\<close> finds the first position of a date, and fails only on an absent one.\<close>

lemma first_index_iff:
  "first_index d xs = Some i \<longleftrightarrow> i < length xs \<and> xs ! i = d \<and> (\<forall>j<i. xs ! j \<noteq> d)"
proof (induction xs arbitrary: i)
  case Nil
  then show ?case by simp
next
  case (Cons x xs)
  show ?case
  proof (cases "x = d")
    case True
    then show ?thesis by (cases i) auto
  next
    case False
    show ?thesis
    proof (cases i)
      case 0
      with False show ?thesis by simp
    next
      case (Suc k)
      have "(\<forall>j<Suc k. (x # xs) ! j \<noteq> d) = (\<forall>j<k. xs ! j \<noteq> d)"
        using False by (auto simp: nth_Cons split: nat.splits)
      with Suc False Cons.IH [of k] show ?thesis by auto
    qed
  qed
qed

lemma first_index_None: "first_index d xs = None \<longleftrightarrow> d \<notin> set xs"
  by (induction xs) auto

lemma first_index_mem: "first_index d xs = Some i \<Longrightarrow> d \<in> set xs"
  using first_index_None [of d xs] by auto

lemma iloc_nth: "j \<le> length xs \<Longrightarrow> iloc xs i j = map (\<lambda>k. xs ! k) [i..<j]"
  unfolding iloc_def
  by (rule nth_equalityI) auto

text \<open>What \<open>get_sliced_data\<close> returns on a valid range, for each frequency.\<close>

lemma get_sliced_data_valid:
  assumes "first_index start_date (map date data) = Some s"
    and "first_index end_date (map date data) = Some e"
    and "s \<le> e"
  shows "get_sliced_data data (Day (days start_date)) (Day (days end_date)) frequency
           is_averaged =
     (if frequency = ''Daily'' then ([], Inr (Some (Rows (iloc data s (e + 1)))))
      else if frequency = ''Weekly'' then
        ([], Inr (Some (Buckets ((if is_averaged then mean_numeric_only else sum_numeric_only)
                (resample Week_end (iloc data s (e + 1)))))))
      else if frequency = ''Monthly'' then
        ([], Inr (Some (Buckets ((if is_averaged then mean_numeric_only else sum_numeric_only)
                (resample Month_end (iloc data s (e + 1)))))))
      else ([invalid_frequency], Inr None))"
  using assms first_index_mem [OF assms(1)] first_index_mem [OF assms(2)]
  by (simp add: get_sliced_data_def pd_to_datetime_days)

text \<open>
  \<open>get_sliced_data\<close> raises exactly when a date conversion does, with nothing printed:
  once both dates are converted, its guards make its indexing safe.
\<close>

lemma get_sliced_data_raises:
  "pd_to_datetime start_date = Inl err \<Longrightarrow>
   get_sliced_data data start_date end_date frequency is_averaged = ([], Inl err)"
  "pd_to_datetime start_date = Inr t \<Longrightarrow> pd_to_datetime end_date = Inl err \<Longrightarrow>
   get_sliced_data data start_date end_date frequency is_averaged = ([], Inl err)"
  by (simp_all add: get_sliced_data_def)

lemma get_sliced_data_never_raises:
  "snd (get_sliced_data data (Day (days start_date)) (Day (days end_date)) frequency is_averaged)
     \<noteq> Inl err"
  by (auto simp: get_sliced_data_def pd_to_datetime_days first_index_None split: option.splits)

lemma sample_positions:
  "first_index (Timestamp 10) (map date three_days) = Some 0"
  "first_index (Timestamp 11) (map date three_days) = Some 1"
  "first_index (Timestamp 12) (map date three_days) = Some 2"
  "first_index (Timestamp 0) (map date fortnight) = Some 0"
  "first_index (Timestamp 14) (map date fortnight) = Some 1"
  by (simp_all add: three_days_def fortnight_def sample_row_def Timestamp_eq)

lemma sample_days:
  "days (Timestamp 0) = 0"
  "days (Timestamp 10) = 10"
  "days (Timestamp 11) = 11"
  "days (Timestamp 12) = 12"
  "days (Timestamp 14) = 14"
  "days (Timestamp 99) = 99"
  by (simp_all add: days_Timestamp)

text \<open>The daily frame of a valid range, row by row.\<close>

lemma daily_rows:
  assumes "first_index start_date (map date data) = Some s"
    and "first_index end_date (map date data) = Some e"
    and "s \<le> e"
  shows "get_sliced_data data (Day (days start_date)) (Day (days end_date)) ''Daily''
           is_averaged =
           ([], Inr (Some (Rows (map (\<lambda>k. data ! k) [s..<Suc e]))))"
proof -
  from assms(2) have "e < length data"
    by (auto simp: first_index_iff)
  then have "iloc data s (e + 1) = map (\<lambda>k. data ! k) [s..<Suc e]"
    by (simp add: iloc_nth)
  with get_sliced_data_valid [OF assms, of "''Daily''" is_averaged] show ?thesis
    by simp
qed

subsection \<open>Daily slices\<close>

text \<open>
  C3. For every table and every \<open>start_date\<close> and \<open>end_date\<close> both present in the table,
  at first positions \<open>s\<close> and \<open>e\<close> with \<open>e\<close> not before \<open>s\<close>, \<open>get_sliced_data\<close> on the
  days of these two dates with frequency \<open>"Daily"\<close> prints nothing and returns exactly
  the rows at positions \<open>s\<close> up to and including \<open>e\<close>, in table order and unchanged; the
  first of them is dated \<open>start_date\<close> and the last \<open>end_date\<close>.
\<close>

theorem daily_slice:
  assumes "first_index start_date (map date data) = Some s"
    and "first_index end_date (map date data) = Some e"
    and "s \<le> e"
  shows "get_sliced_data data (Day (days start_date)) (Day (days end_date)) ''Daily''
           is_averaged =
           ([], Inr (Some (Rows (map (\<lambda>k. data ! k) [s..<Suc e]))))
         \<and> e < length data \<and> date (data ! s) = start_date \<and> date (data ! e) = end_date"
proof -
  from assms(2) have e: "e < length data" "date (data ! e) = end_date"
    by (auto simp: first_index_iff)
  from assms(1) assms(3) e have s: "date (data ! s) = start_date"
    by (auto simp: first_index_iff)
  from daily_rows [OF assms, of is_averaged] e s show ?thesis
    by simp
qed

theorem daily_slice_witness:
  "first_index (Timestamp 11) (map date three_days) = Some 1
   \<and> first_index (Timestamp 12) (map date three_days) = Some 2
   \<and> get_sliced_data three_days (Day 11) (Day 12) ''Daily'' False =
       ([], Inr (Some (Rows [sample_row 2 11 2 3, sample_row 3 12 0 3])))"
proof -
  have "map (\<lambda>k. three_days ! k) [1..<Suc 2] = [sample_row 2 11 2 3, sample_row 3 12 0 3]"
    by (simp add: three_days_def upt_rec)
  with daily_slice [OF sample_positions(2) sample_positions(3), of False] sample_positions
  show ?thesis by (simp add: sample_days)
qed


section \<open>Facts about resampling\<close>

text \<open>
  The calendar on known days: 16 April 1991 is day 7775, a Tuesday; its week ends on
  Sunday 21 April (day 7780) and its month on 30 April (day 7789).
\<close>

lemma calendar_samples:
  "civil_from_days 7775 = (1991, 4, 16)"
  "days_from_civil 1991 4 16 = 7775"
  "window_label Week_end (window Week_end 7775) = 7780"
  "civil_from_days 7780 = (1991, 4, 21)"
  "window_label Month_end (window Month_end 7775) = 7789"
  "civil_from_days 7789 = (1991, 4, 30)"
  by code_simp+

lemma foldl_min_least:
  fixes a :: int
  shows "foldl min a xs \<in> set (a # xs) \<and> (\<forall>x \<in> set (a # xs). foldl min a xs \<le> x)"
proof (induction xs arbitrary: a)
  case Nil
  then show ?case by simp
next
  case (Cons x xs)
  from Cons.IH [of "min a x"] show ?case
    by (auto simp: min_def split: if_splits)
qed

lemma foldl_max_greatest:
  fixes a :: int
  shows "foldl max a xs \<in> set (a # xs) \<and> (\<forall>x \<in> set (a # xs). x \<le> foldl max a xs)"
proof (induction xs arbitrary: a)
  case Nil
  then show ?case by simp
next
  case (Cons x xs)
  from Cons.IH [of "max a x"] show ?case
    by (auto simp: max_def split: if_splits)
qed

text \<open>
  The bins of a frame that is not empty: one for each window between those of its
  earliest and latest dates, which are dates of the frame.
\<close>

lemma resample_bins:
  assumes "frame \<noteq> []"
  shows "\<exists>lo hi. lo \<in> set (map date frame) \<and> hi \<in> set (map date frame)
      \<and> (\<forall>x \<in> set frame. days lo \<le> days (date x) \<and> days (date x) \<le> days hi)
      \<and> resample rl frame =
          map (\<lambda>k. (window_label rl k, filter (\<lambda>x. window rl (days (date x)) = k) frame))
            [window rl (days lo)..window rl (days hi)]"
proof -
  from assms obtain r rs where f: "frame = r # rs" by (cases frame) auto
  let ?ds = "map (\<lambda>x. days (date x)) rs"
  let ?lo = "foldl min (days (date r)) ?ds"
  let ?hi = "foldl max (days (date r)) ?ds"
  from foldl_min_least [of "days (date r)" ?ds]
  have "?lo \<in> (\<lambda>x. days (date x)) ` set frame" and lo_le: "\<forall>x \<in> set frame. ?lo \<le> days (date x)"
    by (auto simp: f)
  then obtain a where a: "a \<in> set frame" "days (date a) = ?lo" by auto
  from foldl_max_greatest [of "days (date r)" ?ds]
  have "?hi \<in> (\<lambda>x. days (date x)) ` set frame" and hi_ge: "\<forall>x \<in> set frame. days (date x) \<le> ?hi"
    by (auto simp: f)
  then obtain b where b: "b \<in> set frame" "days (date b) = ?hi" by auto
  have "resample rl frame =
      map (\<lambda>k. (window_label rl k, filter (\<lambda>x. window rl (days (date x)) = k) frame))
        [window rl ?lo..window rl ?hi]"
    by (simp add: resample_def f Let_def)
  with a b lo_le hi_ge
  have "date a \<in> set (map date frame) \<and> date b \<in> set (map date frame)
      \<and> (\<forall>x \<in> set frame. days (date a) \<le> days (date x) \<and> days (date x) \<le> days (date b))
      \<and> resample rl frame =
          map (\<lambda>k. (window_label rl k, filter (\<lambda>x. window rl (days (date x)) = k) frame))
            [window rl (days (date a))..window rl (days (date b))]"
    by simp
  then show ?thesis by blast
qed

lemma window_occupied:
  assumes "d \<in> set (map date frame)"
  shows "filter (\<lambda>x. window rl (days (date x)) = window rl (days d)) frame \<noteq> []"
proof -
  from assms obtain x where "x \<in> set frame" "date x = d" by auto
  then show ?thesis by (auto simp: filter_empty_conv)
qed

text \<open>A bin without rows reduces to sums of 0 and to means of NaN.\<close>

lemma reduce_empty:
  "reduce bin_sum (l, []) =
     \<lparr>label = l, b_julian_day = Fin 0, b_mah_sync = Fin 0, b_mah_ts1 = Fin 0, b_mah_ts2 = Fin 0,
      b_cum_sync = Fin 0, b_cum_ts1 = Fin 0, b_cum_ts2 = Fin 0\<rparr>"
  "reduce bin_mean (l, []) =
     \<lparr>label = l, b_julian_day = NaN, b_mah_sync = NaN, b_mah_ts1 = NaN, b_mah_ts2 = NaN,
      b_cum_sync = NaN, b_cum_ts1 = NaN, b_cum_ts2 = NaN\<rparr>"
  by (simp_all add: reduce_def bin_sum_def bin_mean_def)

lemma iloc_not_empty: "s \<le> e \<Longrightarrow> e < length xs \<Longrightarrow> iloc xs s (e + 1) \<noteq> []"
  by (simp add: iloc_def)

subsection \<open>Empty windows\<close>

text \<open>
  C4, as the claim states it, fails: on two records a fortnight apart, the weekly
  resampling returns three buckets, and the middle one, for the week ending 1970-01-11,
  reduces a bin that holds no record.
\<close>

theorem empty_week_counterexample:
  "resample Week_end (iloc fortnight 0 (1 + 1)) =
     [(3, [sample_row 1 0 1 1]), (10, []), (17, [sample_row 2 14 2 3])]
   \<and> get_sliced_data fortnight (Day 0) (Day 14) ''Weekly'' False =
     ([], Inr (Some (Buckets
        [reduce bin_sum (3, [sample_row 1 0 1 1]),
         reduce bin_sum (10, []),
         reduce bin_sum (17, [sample_row 2 14 2 3])])))"
proof -
  have r: "resample Week_end (iloc fortnight 0 (1 + 1)) =
     [(3, [sample_row 1 0 1 1]), (10, []), (17, [sample_row 2 14 2 3])]"
    by (simp add: resample_def iloc_def fortnight_def sample_row_def Let_def upto_rec1
        days_Timestamp)
  from get_sliced_data_valid [OF sample_positions(4) sample_positions(5), of "''Weekly''" False] r
  show ?thesis by (simp add: sum_numeric_only_def sample_days)
qed

text \<open>
  C4, amended. For every valid date range, \<open>get_sliced_data\<close> with frequency \<open>"Weekly"\<close> or
  \<open>"Monthly"\<close> returns one bucket for every calendar window from the window of the
  earliest sliced date to the window of the latest, in ascending order; each bucket
  aggregates exactly the sliced records dated in its window; the buckets of those two
  end windows aggregate at least one record each. (A window in between that holds no
  sliced record still has its bucket.)
\<close>

theorem resampled_buckets:
  assumes "first_index start_date (map date data) = Some s"
    and "first_index end_date (map date data) = Some e"
    and "s \<le> e"
    and "(frequency, rl) \<in> {(''Weekly'', Week_end), (''Monthly'', Month_end)}"
    and "slice = iloc data s (e + 1)"
  shows "\<exists>lo hi. lo \<in> set (map date slice) \<and> hi \<in> set (map date slice)
      \<and> (\<forall>x \<in> set slice. days lo \<le> days (date x) \<and> days (date x) \<le> days hi)
      \<and> get_sliced_data data (Day (days start_date)) (Day (days end_date)) frequency
            is_averaged =
          ([], Inr (Some (Buckets
             (map (\<lambda>k. reduce (if is_averaged then bin_mean else bin_sum)
                        (window_label rl k,
                         filter (\<lambda>x. window rl (days (date x)) = k) slice))
                [window rl (days lo)..window rl (days hi)]))))
      \<and> filter (\<lambda>x. window rl (days (date x)) = window rl (days lo)) slice \<noteq> []
      \<and> filter (\<lambda>x. window rl (days (date x)) = window rl (days hi)) slice \<noteq> []"
proof -
  from assms(2) have "e < length data" by (auto simp: first_index_iff)
  with assms(3,5) iloc_not_empty [of s e data] have "slice \<noteq> []" by simp
  from resample_bins [OF this, of rl] obtain lo hi where
    lo: "lo \<in> set (map date slice)" and hi: "hi \<in> set (map date slice)"
    and b: "\<forall>x \<in> set slice. days lo \<le> days (date x) \<and> days (date x) \<le> days hi"
    and r: "resample rl slice =
          map (\<lambda>k. (window_label rl k, filter (\<lambda>x. window rl (days (date x)) = k) slice))
            [window rl (days lo)..window rl (days hi)]"
    by blast
  have g: "get_sliced_data data (Day (days start_date)) (Day (days end_date)) frequency
        is_averaged =
      ([], Inr (Some (Buckets
         (map (\<lambda>k. reduce (if is_averaged then bin_mean else bin_sum)
                    (window_label rl k, filter (\<lambda>x. window rl (days (date x)) = k) slice))
            [window rl (days lo)..window rl (days hi)]))))"
    using assms(4) get_sliced_data_valid [OF assms(1-3), of frequency is_averaged] r
    unfolding assms(5) [symmetric]
    by (auto simp: sum_numeric_only_def mean_numeric_only_def comp_def)
  from lo hi b g window_occupied [OF lo, of rl] window_occupied [OF hi, of rl]
  show ?thesis by blast
qed

theorem resampled_buckets_witness:
  "first_index (Timestamp 0) (map date fortnight) = Some 0
   \<and> first_index (Timestamp 14) (map date fortnight) = Some 1
   \<and> (\<exists>lo hi. lo \<in> set (map date (iloc fortnight 0 (1 + 1)))
      \<and> hi \<in> set (map date (iloc fortnight 0 (1 + 1)))
      \<and> get_sliced_data fortnight (Day 0) (Day 14) ''Weekly'' True =
          ([], Inr (Some (Buckets
             (map (\<lambda>k. reduce (if True then bin_mean else bin_sum)
                        (window_label Week_end k,
                         filter (\<lambda>x. window Week_end (days (date x)) = k)
                           (iloc fortnight 0 (1 + 1))))
                [window Week_end (days lo)..window Week_end (days hi)]))))
      \<and> filter (\<lambda>x. window Week_end (days (date x)) = window Week_end (days lo))
           (iloc fortnight 0 (1 + 1)) \<noteq> []
      \<and> filter (\<lambda>x. window Week_end (days (date x)) = window Week_end (days hi))
           (iloc fortnight 0 (1 + 1)) \<noteq> [])"
proof -
  have "(''Weekly'', Week_end) \<in> {(''Weekly'', Week_end), (''Monthly'', Month_end)}"
    by simp
  from resampled_buckets [OF sample_positions(4) sample_positions(5) le0 this refl, of True]
  have "\<exists>lo hi. lo \<in> set (map date (iloc fortnight 0 (1 + 1)))
      \<and> hi \<in> set (map date (iloc fortnight 0 (1 + 1)))
      \<and> get_sliced_data fortnight (Day (days (Timestamp 0))) (Day (days (Timestamp 14)))
            ''Weekly'' True =
          ([], Inr (Some (Buckets
             (map (\<lambda>k. reduce (if True then bin_mean else bin_sum)
                        (window_label Week_end k,
                         filter (\<lambda>x. window Week_end (days (date x)) = k)
                           (iloc fortnight 0 (1 + 1))))
                [window Week_end (days lo)..window Week_end (days hi)]))))
      \<and> filter (\<lambda>x. window Week_end (days (date x)) = window Week_end (days lo))
           (iloc fortnight 0 (1 + 1)) \<noteq> []
      \<and> filter (\<lambda>x. window Week_end (days (date x)) = window Week_end (days hi))
           (iloc fortnight 0 (1 + 1)) \<noteq> []"
    by blast
  then have "\<exists>lo hi. lo \<in> set (map date (iloc fortnight 0 (1 + 1)))
      \<and> hi \<in> set (map date (iloc fortnight 0 (1 + 1)))
      \<and> get_sliced_data fortnight (Day 0) (Day 14) ''Weekly'' True =
          ([], Inr (Some (Buckets
             (map (\<lambda>k. reduce (if True then bin_mean else bin_sum)
                        (window_label Week_end k,
                         filter (\<lambda>x. window Week_end (days (date x)) = k)
                           (iloc fortnight 0 (1 + 1))))
                [window Week_end (days lo)..window Week_end (days hi)]))))
      \<and> filter (\<lambda>x. window Week_end (days (date x)) = window Week_end (days lo))
           (iloc fortnight 0 (1 + 1)) \<noteq> []
      \<and> filter (\<lambda>x. window Week_end (days (date x)) = window Week_end (days hi))
           (iloc fortnight 0 (1 + 1)) \<noteq> []"
    by (simp only: sample_days)
  with sample_positions(4) sample_positions(5) show ?thesis by blast
qed

section \<open>Facts about the derived quantities\<close>

lemma filter_date_first:
  assumes "first_index d (map date data) = Some i"
  shows "\<exists>rest. filter (\<lambda>r. date r = d) data = data ! i # rest"
  using assms
proof (induction data arbitrary: i)
  case Nil
  then show ?case by simp
next
  case (Cons r rs)
  show ?case
  proof (cases "date r = d")
    case True
    with Cons.prems show ?thesis by auto
  next
    case False
    with Cons.prems obtain k where k: "first_index d (map date rs) = Some k" "i = Suc k"
      by auto
    from Cons.IH [OF k(1)] False k(2) show ?thesis by simp
  qed
qed

text \<open>The three targets name a column of a sliced frame, whatever its kind.\<close>

lemma mah_column_cases:
  "target \<in> {''Sync'', ''TS-1'', ''TS-2''} \<Longrightarrow>
   numeric_column (milliamp_hours target) =
     Some (if target = ''Sync'' then mah_sync else if target = ''TS-1'' then mah_ts1 else mah_ts2)"
  by (auto simp: numeric_column_def milliamp_hours_def)

lemma mah_bucket_column_cases:
  "target \<in> {''Sync'', ''TS-1'', ''TS-2''} \<Longrightarrow>
   bucket_column (milliamp_hours target) =
     Some (if target = ''Sync'' then b_mah_sync
           else if target = ''TS-1'' then b_mah_ts1 else b_mah_ts2)"
  by (auto simp: bucket_column_def milliamp_hours_def)

lemma frame_column_mah:
  "target \<in> {''Sync'', ''TS-1'', ''TS-2''} \<Longrightarrow>
   \<exists>xs. frame_column fr (milliamp_hours target) = Some xs"
  by (cases fr) (simp_all add: mah_column_cases mah_bucket_column_cases)

lemma get_integrated_current_range:
  assumes "target \<in> set valid_targets"
    and "target \<in> {''Sync'', ''TS-1'', ''TS-2''}"
    and "get_sliced_data data start_date end_date frequency is_averaged
          = ([], Inr (Some used_data))"
  shows "\<exists>xs. frame_column used_data (milliamp_hours target) = Some xs
     \<and> get_integrated_current data start_date (Some end_date) target valid_targets frequency
          is_averaged is_summed
        = ([], Inr (if is_summed then Float (np_sum xs) else Array xs))"
proof -
  from frame_column_mah [OF assms(2), of used_data]
  obtain xs where xs: "frame_column used_data (milliamp_hours target) = Some xs" ..
  with assms(1) assms(3) show ?thesis
    by (simp add: get_integrated_current_def)
qed

text \<open>On finite floats \<open>np_sum\<close> is the sum of the list.\<close>

lemma np_sum_Fin: "np_sum (map Fin ys) = Fin (sum_list ys)"
proof -
  have "foldl fl_add (Fin a) (map Fin ys) = Fin (a + sum_list ys)" for a
    by (induction ys arbitrary: a) (simp_all add: add.assoc)
  from this [of 0] show ?thesis by (simp add: np_sum_def)
qed


text \<open>
  With targets among the three channels and dates that convert,
  \<open>get_integrated_current\<close> never raises.
\<close>

lemma get_integrated_current_never_raises:
  assumes "set valid_targets \<subseteq> {''Sync'', ''TS-1'', ''TS-2''}"
  shows "snd (get_integrated_current data (Day (days start_date))
               (map_option (\<lambda>t. Day (days t)) end_date) target valid_targets frequency
               is_averaged is_summed) \<noteq> Inl err"
proof (cases "target \<in> set valid_targets")
  case False
  then show ?thesis by (simp add: get_integrated_current_def)
next
  case True
  with assms have t: "target \<in> {''Sync'', ''TS-1'', ''TS-2''}" by blast
  show ?thesis
  proof (cases end_date)
    case None
    show ?thesis
    proof (cases "first_index start_date (map date data)")
      case None
      then have "start_date \<notin> set (map date data)" by (simp add: first_index_None)
      with True \<open>end_date = None\<close> show ?thesis
        by (simp add: get_integrated_current_def pd_to_datetime_days)
    next
      case (Some i)
      from filter_date_first [OF Some] obtain rest where
        "filter (\<lambda>r. date r = start_date) data = data ! i # rest" ..
      with True \<open>end_date = None\<close> mah_column_cases [OF t] first_index_mem [OF Some]
      show ?thesis by (simp add: get_integrated_current_def pd_to_datetime_days)
    qed
  next
    case (Some e)
    obtain out res where
      g: "get_sliced_data data (Day (days start_date)) (Day (days e)) frequency is_averaged
            = (out, res)"
      by (cases "get_sliced_data data (Day (days start_date)) (Day (days e)) frequency
            is_averaged")
    with get_sliced_data_never_raises [of data start_date e frequency is_averaged]
    obtain u where res: "res = Inr u" by (cases res) auto
    show ?thesis
    proof (cases u)
      case None
      with True Some g res show ?thesis by (simp add: get_integrated_current_def)
    next
      case (Some used)
      from frame_column_mah [OF t, of used] obtain xs where
        "frame_column used (milliamp_hours target) = Some xs" ..
      with True \<open>end_date = Some e\<close> Some g res show ?thesis
        by (simp add: get_integrated_current_def)
    qed
  qed
qed

lemma sample_targets:
  "''TS-1'' \<in> set valid_targets_default"
  "''TS-1'' \<in> {''Sync'', ''TS-1'', ''TS-2''}"
  by (simp_all add: valid_targets_default_def)

subsection \<open>Summing\<close>

text \<open>
  C7. For every valid date range (both dates present, the end position not before the
  start position), every channel target among the valid targets and every frequency
  among \<open>"Daily"\<close>, \<open>"Weekly"\<close> and \<open>"Monthly"\<close>, \<open>get_integrated_current\<close> on the days
  of the two dates with
  \<open>is_summed=False\<close> returns an array, and with \<open>is_summed=True\<close> on the same arguments it
  returns the sum of that array: its elements added up from 0, which on an array without
  NaN is the arithmetic sum of the values.
\<close>

theorem summed_is_sum_of_elements:
  assumes "first_index start_date (map date data) = Some s"
    and "first_index end_date (map date data) = Some e"
    and "s \<le> e"
    and "target \<in> set valid_targets"
    and "target \<in> {''Sync'', ''TS-1'', ''TS-2''}"
    and "frequency \<in> {''Daily'', ''Weekly'', ''Monthly''}"
  shows "\<exists>xs. get_integrated_current data (Day (days start_date)) (Some (Day (days end_date)))
                 target valid_targets frequency is_averaged False = ([], Inr (Array xs))
            \<and> get_integrated_current data (Day (days start_date)) (Some (Day (days end_date)))
                 target valid_targets frequency is_averaged True
                 = ([], Inr (Float (np_sum xs)))
            \<and> (\<forall>ys. xs = map Fin ys \<longrightarrow> np_sum xs = Fin (sum_list ys))"
proof -
  from assms(6) get_sliced_data_valid [OF assms(1-3), of frequency is_averaged]
  obtain used_data where
    u: "get_sliced_data data (Day (days start_date)) (Day (days end_date)) frequency
          is_averaged = ([], Inr (Some used_data))"
    by auto
  from get_integrated_current_range [OF assms(4,5) u, of False]
    get_integrated_current_range [OF assms(4,5) u, of True]
  show ?thesis by (auto simp: np_sum_Fin)
qed

theorem summed_is_sum_of_elements_witness:
  "first_index (Timestamp 10) (map date three_days) = Some 0
   \<and> first_index (Timestamp 12) (map date three_days) = Some 2
   \<and> ''TS-1'' \<in> set valid_targets_default
   \<and> (\<exists>xs. get_integrated_current three_days (Day 10) (Some (Day 12)) ''TS-1''
                 valid_targets_default ''Weekly'' False False = ([], Inr (Array xs))
            \<and> get_integrated_current three_days (Day 10) (Some (Day 12)) ''TS-1''
                 valid_targets_default ''Weekly'' False True = ([], Inr (Float (np_sum xs))))"
proof -
  have f: "''Weekly'' \<in> {''Daily'', ''Weekly'', ''Monthly''}" by simp
  from summed_is_sum_of_elements [OF sample_positions(1) sample_positions(3) le0 sample_targets f,
      of False]
  have "\<exists>xs. get_integrated_current three_days (Day 10) (Some (Day 12)) ''TS-1''
                 valid_targets_default ''Weekly'' False False = ([], Inr (Array xs))
            \<and> get_integrated_current three_days (Day 10) (Some (Day 12)) ''TS-1''
                 valid_targets_default ''Weekly'' False True = ([], Inr (Float (np_sum xs)))"
    unfolding sample_days by blast
  with sample_positions(1) sample_positions(3) sample_targets(1)
  show ?thesis by blast
qed

text \<open>The daily sums of the sample, element-wise and summed.\<close>

lemma three_days_currents:
  "get_integrated_current three_days (Day 10) (Some (Day 12)) ''TS-1'' valid_targets_default
     ''Daily'' False False = ([], Inr (Array [Fin 1, Fin 2, Fin 0]))"
  "get_integrated_current three_days (Day 10) (Some (Day 12)) ''TS-1'' valid_targets_default
     ''Daily'' False True = ([], Inr (Float (Fin 3)))"
proof -
  have g: "get_sliced_data three_days (Day 10) (Day 12) ''Daily'' False
      = ([], Inr (Some (Rows three_days)))"
    using get_sliced_data_valid [OF sample_positions(1) sample_positions(3), of "''Daily''" False]
    by (simp add: iloc_def three_days_def sample_days)
  have c: "frame_column (Rows three_days) (milliamp_hours ''TS-1'') = Some [Fin 1, Fin 2, Fin 0]"
    by (simp add: mah_column_cases three_days_def sample_row_def)
  show "get_integrated_current three_days (Day 10) (Some (Day 12)) ''TS-1''
     valid_targets_default ''Daily'' False False = ([], Inr (Array [Fin 1, Fin 2, Fin 0]))"
    using g c
    by (simp add: get_integrated_current_def valid_targets_default_def del: frame_column.simps)
  show "get_integrated_current three_days (Day 10) (Some (Day 12)) ''TS-1''
     valid_targets_default ''Daily'' False True = ([], Inr (Float (Fin 3)))"
    using g c
    by (simp add: get_integrated_current_def valid_targets_default_def np_sum_def
        del: frame_column.simps)
qed

subsection \<open>Single dates\<close>




subsection \<open>Proton counts\<close>

text \<open>
  C9. Whenever \<open>get_integrated_current\<close> returns a charge \<open>c\<close>, a float or an array of them,
  \<open>get_num_protons\<close> on the same arguments prints the same and returns
  \<open>(c * 1e-3) / 1.6e-19\<close>, element by element on an array, and that quantity divided by
  86400 when \<open>per_second\<close> is true.
\<close>

theorem num_protons_of_charge:
  "(get_integrated_current data start_date end_date target valid_targets frequency
       is_averaged is_summed = (out, Inr (Float c)) \<longrightarrow>
      get_num_protons data start_date end_date target valid_targets frequency
         is_averaged is_summed False
        = (out, Inr (Float (fl_div (fl_mul c (Fin (1 / 1000))) (Fin (16 / 10 ^ 20)))))
    \<and> get_num_protons data start_date end_date target valid_targets frequency
         is_averaged is_summed True
        = (out, Inr (Float (fl_div (fl_div (fl_mul c (Fin (1 / 1000))) (Fin (16 / 10 ^ 20)))
                               (Fin 86400)))))
   \<and> (get_integrated_current data start_date end_date target valid_targets frequency
       is_averaged is_summed = (out, Inr (Array cs)) \<longrightarrow>
      get_num_protons data start_date end_date target valid_targets frequency
         is_averaged is_summed False
        = (out, Inr (Array (map (\<lambda>c. fl_div (fl_mul c (Fin (1 / 1000))) (Fin (16 / 10 ^ 20))) cs)))
    \<and> get_num_protons data start_date end_date target valid_targets frequency
         is_averaged is_summed True
        = (out, Inr (Array (map (\<lambda>c. fl_div (fl_div (fl_mul c (Fin (1 / 1000)))
                                            (Fin (16 / 10 ^ 20))) (Fin 86400)) cs))))"
  by (simp add: get_num_protons_def proton_charge_def comp_def)

text \<open>
  On the sample: a day of 3 mAh in total is 1.875e16 protons, and the three days of
  1, 2 and 0 mAh are 6.25e15, 1.25e16 and 0 protons.
\<close>

theorem num_protons_of_charge_witness:
  "get_integrated_current three_days (Day 10) (Some (Day 12)) ''TS-1'' valid_targets_default
     ''Daily'' False True = ([], Inr (Float (Fin 3)))
   \<and> get_num_protons three_days (Day 10) (Some (Day 12)) ''TS-1'' valid_targets_default
     ''Daily'' False True False = ([], Inr (Float (Fin 18750000000000000)))
   \<and> get_integrated_current three_days (Day 10) (Some (Day 12)) ''TS-1''
     valid_targets_default ''Daily'' False False = ([], Inr (Array [Fin 1, Fin 2, Fin 0]))
   \<and> get_num_protons three_days (Day 10) (Some (Day 12)) ''TS-1'' valid_targets_default
     ''Daily'' False False False
       = ([], Inr (Array [Fin 6250000000000000, Fin 12500000000000000, Fin 0]))"
  using three_days_currents
    num_protons_of_charge [of three_days "Day 10" "Some (Day 12)" "''TS-1''"
      valid_targets_default "''Daily''" False True "[]" "Fin 3" "[]"]
    num_protons_of_charge [of three_days "Day 10" "Some (Day 12)" "''TS-1''"
      valid_targets_default "''Daily''" False False "[]" "Fin 0" "[Fin 1, Fin 2, Fin 0]"]
  by simp

subsection \<open>Daily queries and \<open>is_averaged\<close>\<close>

text \<open>
  C10. With frequency \<open>"Daily"\<close>, neither \<open>get_sliced_data\<close> nor \<open>get_integrated_current\<close>
  depends on \<open>is_averaged\<close>: for every table, date arguments (convertible or not), target,
  valid targets and \<open>is_summed\<close>,
  the run with \<open>is_averaged=True\<close> and the run with \<open>is_averaged=False\<close> print and return
  the same.
\<close>

theorem daily_ignores_is_averaged:
  "get_sliced_data data start_date end_date ''Daily'' True
     = get_sliced_data data start_date end_date ''Daily'' False
   \<and> get_integrated_current data start_date end_date_opt target valid_targets ''Daily''
        True is_summed
     = get_integrated_current data start_date end_date_opt target valid_targets ''Daily''
        False is_summed"
proof -
  have sl: "get_sliced_data data start_date end_date ''Daily'' True
     = get_sliced_data data start_date end_date ''Daily'' False" for end_date
    by (simp add: get_sliced_data_def split: option.splits sum.splits)
  show ?thesis
    by (cases end_date_opt) (simp_all add: get_integrated_current_def sl)
qed

theorem daily_ignores_is_averaged_witness:
  "get_integrated_current three_days (Day 10) (Some (Day 12)) ''TS-1'' valid_targets_default
     ''Daily'' True True = ([], Inr (Float (Fin 3)))"
  using daily_ignores_is_averaged [of three_days "Day 10" "Day 12" "Some (Day 12)" "''TS-1''"
      valid_targets_default True] three_days_currents(2)
  by simp

subsection \<open>Invalid input to the wrappers\<close>

text \<open>
  The three wrappers do arithmetic or a comparison on what \<open>get_integrated_current\<close>
  returned without testing it for \<open>None\<close>: whenever it returns \<open>None\<close>, they raise a
  \<open>TypeError\<close>.
\<close>

lemma wrappers_raise_on_None:
  assumes "get_integrated_current data start_date end_date target valid_targets frequency
       is_averaged is_summed = (out, Inr PyNone)"
  shows "get_num_protons data start_date end_date target valid_targets frequency
       is_averaged is_summed per_second = (out, Inl TypeError)"
    and "get_average_power data start_date end_date target valid_targets frequency
       is_averaged is_summed voltage voltage_unit_factor current_unit_factor
         = (out, Inl TypeError)"
  using assms by (simp_all add: get_num_protons_def get_average_power_def)

lemma is_beam_on_raises_on_None:
  assumes "get_integrated_current data d None target valid_targets_default ''Daily'' False True
       = (out, Inr PyNone)"
  shows "is_beam_on data d target = (out, Inl TypeError)"
  using assms by (simp add: is_beam_on_def)

text \<open>
  C2, at a date that is not in the table, 10 April 1970 (day 99): \<open>get_sliced_data\<close> and
  \<open>get_integrated_current\<close> print \<open>Invalid start_date\<close> and return \<open>None\<close>, while
  \<open>get_num_protons\<close>, \<open>is_beam_on\<close> and \<open>get_average_power\<close> (with its default voltage and
  unit factors) raise a \<open>TypeError\<close> after that line is printed.
\<close>

theorem wrappers_raise_on_absent_date:
  "get_sliced_data three_days (Day 99) (Day 12) ''Daily'' False
      = ([''Invalid start_date''], Inr None)
   \<and> get_integrated_current three_days (Day 99) None ''TS-1'' valid_targets_default ''Daily''
        False False = ([''Invalid start_date''], Inr PyNone)
   \<and> get_num_protons three_days (Day 99) None ''TS-1'' valid_targets_default ''Daily''
        False False False = ([''Invalid start_date''], Inl TypeError)
   \<and> is_beam_on three_days (Day 99) ''TS-1'' = ([''Invalid start_date''], Inl TypeError)
   \<and> get_average_power three_days (Day 99) None ''TS-1'' valid_targets_default ''Daily''
        False False 800 (10 ^ 6 * (16 / 10 ^ 20)) (1 / 1000 / 86400)
      = ([''Invalid start_date''], Inl TypeError)"
proof -
  have a: "Timestamp 99 \<notin> set (map date three_days)"
    by (simp add: three_days_def sample_row_def Timestamp_eq)
  have c: "pd_to_datetime (Day 12) = Inr (Timestamp 12)"
    by (simp add: pd_to_datetime.simps)
  have g: "get_integrated_current three_days (Day 99) None ''TS-1'' valid_targets_default
        ''Daily'' False is_summed = ([''Invalid start_date''], Inr PyNone)" for is_summed
    using a
    by (simp add: get_integrated_current_def valid_targets_default_def pd_to_datetime_sample)
  have s: "get_sliced_data three_days (Day 99) (Day 12) ''Daily'' False
      = ([''Invalid start_date''], Inr None)"
    using a by (simp add: get_sliced_data_def pd_to_datetime_sample c)
  from s g [of False] wrappers_raise_on_None [OF g [of False]]
    is_beam_on_raises_on_None [OF g [of True]]
  show ?thesis by simp
qed

text \<open>
  A date no timestamp can hold, such as 13 September 1341, makes even \<open>get_sliced_data\<close>
  raise, whichever of the two dates it is.
\<close>

lemma get_sliced_data_out_of_bounds:
  "get_sliced_data three_days (Day (- 229482)) (Day 12) ''Daily'' False
     = ([], Inl OutOfBoundsDatetime)"
  "get_sliced_data three_days (Day 12) (Day (- 229482)) ''Daily'' False
     = ([], Inl OutOfBoundsDatetime)"
proof -
  have c: "pd_to_datetime (Day 12) = Inr (Timestamp 12)"
    by (simp add: pd_to_datetime.simps)
  show "get_sliced_data three_days (Day (- 229482)) (Day 12) ''Daily'' False
     = ([], Inl OutOfBoundsDatetime)"
    by (rule get_sliced_data_raises(1) [OF pd_to_datetime_sample(2)])
  show "get_sliced_data three_days (Day 12) (Day (- 229482)) ''Daily'' False
     = ([], Inl OutOfBoundsDatetime)"
    by (rule get_sliced_data_raises(2) [OF c pd_to_datetime_sample(2)])
qed

text \<open>A present date: the beam was on on day 11 and off on day 12 of the sample.\<close>

lemma is_beam_on_sample:
  "is_beam_on three_days (Day 11) ''TS-1'' = ([], Inr (Bool True))"
  "is_beam_on three_days (Day 12) ''TS-1'' = ([], Inr (Bool False))"
proof -
  have g: "get_integrated_current three_days (Day (days d)) None ''TS-1'' valid_targets_default
        ''Daily'' False True =
      (if d \<in> set (map date three_days)
       then (case filter (\<lambda>r. date r = d) three_days of
               [] \<Rightarrow> ([], Inl IndexError)
             | r # _ \<Rightarrow> ([], Inr (Float (Fin (mah_ts1 r)))))
       else ([''Invalid start_date''], Inr PyNone))" for d
    by (simp add: get_integrated_current_def valid_targets_default_def mah_column_cases
        pd_to_datetime_days)
  from g [of "Timestamp 11"]
  show "is_beam_on three_days (Day 11) ''TS-1'' = ([], Inr (Bool True))"
    by (simp add: is_beam_on_def sample_days)
      (simp add: three_days_def sample_row_def Timestamp_eq)
  from g [of "Timestamp 12"]
  show "is_beam_on three_days (Day 12) ''TS-1'' = ([], Inr (Bool False))"
    by (simp add: is_beam_on_def sample_days)
      (simp add: three_days_def sample_row_def Timestamp_eq)
qed

end
